theory Spec2Isabelle
  imports Main "HOL-Library.Sublist"
begin

section \<open>Documents and the context string\<close>

text \<open>
  The two scripts \<^verbatim>\<open>fix_rag_chain.py\<close> and \<^verbatim>\<open>improved_rag_debug.py\<close> handle
  LangChain \<^verbatim>\<open>Document\<close> objects: a \<^verbatim>\<open>page_content\<close> string and a \<^verbatim>\<open>metadata\<close>
  dictionary. The scripts read the metadata only through
  \<^verbatim>\<open>metadata.get(key, 'Unknown')\<close> inside an f-string, so a metadata value is kept as
  the string that \<^verbatim>\<open>str\<close> gives for it. A \<open>char\<close> stands for one character of a
  Python \<^verbatim>\<open>str\<close>.
\<close>

record document =
  page_content :: string
  metadata :: "(string \<times> string) list"

text \<open>Python's \<^verbatim>\<open>sep.join(parts)\<close>.\<close>

fun join :: "string \<Rightarrow> string list \<Rightarrow> string" where
  "join sep [] = []"
| "join sep [x] = x"
| "join sep (x # y # ys) = x @ sep @ join sep (y # ys)"

text \<open>
  \<^verbatim>\<open>def format_docs(docs): return "\n\n".join([doc.page_content for doc in docs])\<close>
  (the same function in both scripts).
\<close>

definition format_docs :: "document list \<Rightarrow> string" where
  "format_docs docs = join ''\<newline>\<newline>'' (map page_content docs)"

text \<open>
  The claim's wording of the same string, for comparison with the code: the page contents
  with a blank line put between each two neighbours, concatenated.
\<close>

fun blank_line_between :: "string list \<Rightarrow> string list" where
  "blank_line_between [] = []"
| "blank_line_between [x] = [x]"
| "blank_line_between (x # y # ys) = x # ''\<newline>\<newline>'' # blank_line_between (y # ys)"

definition joined_page_contents :: "document list \<Rightarrow> string" where
  "joined_page_contents docs = concat (blank_line_between (map page_content docs))"

section \<open>Exceptions\<close>

text \<open>
  Values of \<open>exn\<close> stand for instances of Python's \<^verbatim>\<open>Exception\<close> class, which is what
  \<^verbatim>\<open>except Exception as e\<close> catches. \<open>Exception msg\<close> is any exception raised by an
  external library call, with \<^verbatim>\<open>str(e) = msg\<close>.
\<close>

datatype exn = KeyError string | ValueError string | Exception string

fun str_exn :: "exn \<Rightarrow> string" where
  "str_exn (KeyError k) = [CHR 0x27] @ k @ [CHR 0x27]"
| "str_exn (ValueError m) = m"
| "str_exn (Exception m) = m"

section \<open>The prompt template\<close>

text \<open>
  \<^verbatim>\<open>PromptTemplate(template=..., input_variables=["context", "question"])\<close>. The template
  format is the default one, Python's \<^verbatim>\<open>str.format\<close> mini-language. \<open>vformat\<close> models
  its scan for the part the templates use: literal text, the escapes \<^verbatim>\<open>{{\<close> and
  \<^verbatim>\<open>}}\<close>, and a replacement field \<^verbatim>\<open>{name}\<close> whose name is looked up among the
  keyword arguments. The second argument is the field name read so far, when the scan is
  inside a field. The scan is left to right: the first error met is the one raised, and
  a substituted value is not scanned again. Fields with an empty name, a conversion, a
  format specification, or attribute or index access are outside the model; neither
  template has one.
\<close>

definition prepend :: "string \<Rightarrow> exn + string \<Rightarrow> exn + string" where
  "prepend s r = (case r of Inl e \<Rightarrow> Inl e | Inr t \<Rightarrow> Inr (s @ t))"

fun vformat :: "(string \<times> string) list \<Rightarrow> string option \<Rightarrow> string \<Rightarrow> exn + string" where
  "vformat kw None [] = Inr []"
| "vformat kw (Some name) [] =
     Inl (ValueError (if name = [] then ''Single '{' encountered in format string''
                      else ''expected '}' before end of string''))"
| "vformat kw None (c # cs) =
     (if c = CHR ''{'' then
        (case cs of
           [] \<Rightarrow> vformat kw (Some []) cs
         | c' # cs' \<Rightarrow>
             if c' = CHR ''{'' then prepend ''{'' (vformat kw None cs')
             else vformat kw (Some []) cs)
      else if c = CHR ''}'' then
        (case cs of
           [] \<Rightarrow> Inl (ValueError ''Single '}' encountered in format string'')
         | c' # cs' \<Rightarrow>
             if c' = CHR ''}'' then prepend ''}'' (vformat kw None cs')
             else Inl (ValueError ''Single '}' encountered in format string''))
      else prepend [c] (vformat kw None cs))"
| "vformat kw (Some name) (c # cs) =
     (if c = CHR ''}'' then
        (case map_of kw name of
           None \<Rightarrow> Inl (KeyError name)
         | Some v \<Rightarrow> prepend v (vformat kw None cs))
      else vformat kw (Some (name @ [c])) cs)"

record prompt_template =
  template :: string
  input_variables :: "string list"

text \<open>
  Invoking the prompt on a dictionary: a declared input variable that the dictionary
  lacks raises \<^verbatim>\<open>KeyError\<close> (the library's message lists all the missing variables;
  here the error carries the first); otherwise the template is formatted with the
  dictionary.
\<close>

definition prompt_invoke :: "prompt_template \<Rightarrow> (string \<times> string) list \<Rightarrow> exn + string" where
  "prompt_invoke p inputs =
     (case filter (\<lambda>v. map_of inputs v = None) (input_variables p) of
        [] \<Rightarrow> vformat inputs None (template p)
      | v # _ \<Rightarrow> Inl (KeyError v))"

text \<open>\<^verbatim>\<open>fixed_prompt_template\<close> of \<^verbatim>\<open>fix_rag_chain.py\<close>, lines 28 to 37.\<close>

definition fixed_prompt_template :: string where
  \<open>fixed_prompt_template =
     ''\<newline>'' @
     ''Answer the question based on the context provided below.\<newline>'' @
     ''If the context does not contain sufficient information, respond with:\<newline>'' @
     ''"I do not have enough information to answer this question"\<newline>'' @
     ''\<newline>'' @
     ''Context: {context}\<newline>'' @
     ''\<newline>'' @
     ''Question: {question}\<newline>'' @
     ''\<newline>'' @
     ''Answer:''\<close>

text \<open>\<^verbatim>\<open>improved_prompt_template\<close> of \<^verbatim>\<open>improved_rag_debug.py\<close>, lines 60 to 76.\<close>

definition improved_prompt_template :: string where
  \<open>improved_prompt_template =
     ''\<newline>'' @
     ''You are a helpful AI assistant. Answer the question based on the context provided below.\<newline>'' @
     ''If the context does not contain sufficient information to answer the question accurately, respond with:\<newline>'' @
     ''"I do not have enough information to answer this question accurately."\<newline>'' @
     ''\<newline>'' @
     ''Guidelines:\<newline>'' @
     ''- Use only the information provided in the context\<newline>'' @
     ''- Be specific and detailed in your response\<newline>'' @
     ''- If the context contains relevant data, cite it appropriately\<newline>'' @
     ''- If the question is not addressed in the context, say so clearly\<newline>'' @
     ''- Provide a comprehensive answer based on the available context\<newline>'' @
     ''\<newline>'' @
     ''Context: {context}\<newline>'' @
     ''\<newline>'' @
     ''Question: {question}\<newline>'' @
     ''\<newline>'' @
     ''Answer:''\<close>

text \<open>The prompt objects: line 79 of the first script, \<^verbatim>\<open>create_improved_prompt\<close> of the second.\<close>

definition fixed_prompt :: prompt_template where
  "fixed_prompt = \<lparr>template = fixed_prompt_template, input_variables = [''context'', ''question'']\<rparr>"

definition create_improved_prompt :: prompt_template where
  "create_improved_prompt =
     \<lparr>template = improved_prompt_template, input_variables = [''context'', ''question'']\<rparr>"

text \<open>The text of each template before, between and after its two fields.\<close>

definition fixed_head :: string where
  \<open>fixed_head =
     ''\<newline>'' @
     ''Answer the question based on the context provided below.\<newline>'' @
     ''If the context does not contain sufficient information, respond with:\<newline>'' @
     ''"I do not have enough information to answer this question"\<newline>'' @
     ''\<newline>'' @
     ''Context: ''\<close>

definition improved_head :: string where
  \<open>improved_head =
     ''\<newline>'' @
     ''You are a helpful AI assistant. Answer the question based on the context provided below.\<newline>'' @
     ''If the context does not contain sufficient information to answer the question accurately, respond with:\<newline>'' @
     ''"I do not have enough information to answer this question accurately."\<newline>'' @
     ''\<newline>'' @
     ''Guidelines:\<newline>'' @
     ''- Use only the information provided in the context\<newline>'' @
     ''- Be specific and detailed in your response\<newline>'' @
     ''- If the context contains relevant data, cite it appropriately\<newline>'' @
     ''- If the question is not addressed in the context, say so clearly\<newline>'' @
     ''- Provide a comprehensive answer based on the available context\<newline>'' @
     ''\<newline>'' @
     ''Context: ''\<close>

definition question_label :: string where
  "question_label = ''\<newline>\<newline>Question: ''"

definition answer_label :: string where
  "answer_label = ''\<newline>\<newline>Answer:''"

section \<open>Values printed by the scripts\<close>

text \<open>
  \<^verbatim>\<open>str(n)\<close> for the lengths the f-strings print, and \<^verbatim>\<open>repr\<close> for the retriever
  configuration dictionaries: integers, dictionaries, and strings of plain characters
  (no quote, backslash or control character, as every string of the configurations is).
\<close>

fun str_nat :: "nat \<Rightarrow> string" where
  "str_nat n =
     (if n < 10 then [char_of (48 + n)] else str_nat (n div 10) @ [char_of (48 + n mod 10)])"

declare str_nat.simps [simp del]

definition str_int :: "int \<Rightarrow> string" where
  "str_int i = (if i < 0 then ''-'' @ str_nat (nat (- i)) else str_nat (nat i))"

datatype argval = PyInt int | PyStr string | PyDict "(string \<times> argval) list"

type_synonym kwargs = "(string \<times> argval) list"

fun repr :: "argval \<Rightarrow> string" and repr_items :: "(string \<times> argval) list \<Rightarrow> string list" where
  "repr (PyInt i) = str_int i"
| "repr (PyStr s) = [CHR 0x27] @ s @ [CHR 0x27]"
| "repr (PyDict kvs) = ''{'' @ join '', '' (repr_items kvs) @ ''}''"
| "repr_items [] = []"
| "repr_items ((k, v) # kvs) = (repr (PyStr k) @ '': '' @ repr v) # repr_items kvs"

text \<open>The emoji of the first script's messages, as their UTF-8 bytes.\<close>

definition emoji_wrench :: string where
  "emoji_wrench = [CHR 0xF0, CHR 0x9F, CHR 0x94, CHR 0xA7]"

definition emoji_check_mark :: string where
  "emoji_check_mark = [CHR 0xE2, CHR 0x9C, CHR 0x85]"

definition emoji_test_tube :: string where
  "emoji_test_tube = [CHR 0xF0, CHR 0x9F, CHR 0xA7, CHR 0xAA]"

definition emoji_question_mark :: string where
  "emoji_question_mark = [CHR 0xE2, CHR 0x9D, CHR 0x93]"

definition emoji_page :: string where
  "emoji_page = [CHR 0xF0, CHR 0x9F, CHR 0x93, CHR 0x84]"

definition emoji_bulb :: string where
  "emoji_bulb = [CHR 0xF0, CHR 0x9F, CHR 0x92, CHR 0xA1]"

definition emoji_cross_mark :: string where
  "emoji_cross_mark = [CHR 0xE2, CHR 0x9D, CHR 0x8C]"

section \<open>Effects: the outside world, events and exceptions\<close>

text \<open>
  Loading, splitting, embedding, similarity search and generation are done by external
  libraries and services. Their answers are not computed here: they are read from a world
  \<open>'w\<close> that each external call may change, and any of them may raise. What a script
  does is the list of its events in order: every line it prints, every query it sends to
  a retriever (with the keyword arguments the retriever was built with) and every prompt
  it sends to the language model.
\<close>

datatype event = Print string | Retrieve kwargs string | Generate string

type_synonym ('w, 'a) io = "'w \<times> event list \<Rightarrow> (exn + 'a) \<times> ('w \<times> event list)"

definition io_return :: "'a \<Rightarrow> ('w, 'a) io" where
  "io_return x = (\<lambda>s. (Inr x, s))"

definition io_raise :: "exn \<Rightarrow> ('w, 'a) io" where
  "io_raise e = (\<lambda>s. (Inl e, s))"

text \<open>Sequencing: an exception of the first part skips the second.\<close>

definition io_bind :: "('w, 'a) io \<Rightarrow> ('a \<Rightarrow> ('w, 'b) io) \<Rightarrow> ('w, 'b) io" where
  "io_bind m f = (\<lambda>s. case m s of (Inl e, s') \<Rightarrow> (Inl e, s') | (Inr x, s') \<Rightarrow> f x s')"

text \<open>\<^verbatim>\<open>try: m  except Exception as e: h(e)\<close>. What \<open>m\<close> did before raising stays done.\<close>

definition try_except :: "('w, 'a) io \<Rightarrow> (exn \<Rightarrow> ('w, 'a) io) \<Rightarrow> ('w, 'a) io" where
  "try_except m h = (\<lambda>s. case m s of (Inl e, s') \<Rightarrow> h e s' | (Inr x, s') \<Rightarrow> (Inr x, s'))"

definition print :: "string \<Rightarrow> ('w, unit) io" where
  "print line = (\<lambda>(w, tr). (Inr (), (w, tr @ [Print line])))"

text \<open>An external call that leaves no event of its own.\<close>

definition external :: "('w \<Rightarrow> (exn + 'a) \<times> 'w) \<Rightarrow> ('w, 'a) io" where
  "external f = (\<lambda>(w, tr). case f w of (r, w') \<Rightarrow> (r, (w', tr)))"

definition io_of_result :: "exn + 'a \<Rightarrow> ('w, 'a) io" where
  "io_of_result r = (\<lambda>s. (r, s))"

text \<open>\<^verbatim>\<open>for x in xs: body(x)\<close>.\<close>

fun for_each :: "('a \<Rightarrow> ('w, unit) io) \<Rightarrow> 'a list \<Rightarrow> ('w, unit) io" where
  "for_each body [] = io_return ()"
| "for_each body (x # xs) = io_bind (body x) (\<lambda>_. for_each body xs)"

subsection \<open>The vector store, its retrievers and the language model\<close>

text \<open>
  A vector store answers a query put through a retriever that was built from it with
  \<^verbatim>\<open>as_retriever(**kwargs)\<close>; which documents come back for which keyword arguments is
  the library's business. A language model answers a prompt text with the content of its
  reply message. Building a retriever object makes no call and raises nothing for the
  keyword arguments the scripts use.
\<close>

type_synonym 'w vectordb = "kwargs \<Rightarrow> string \<Rightarrow> 'w \<Rightarrow> (exn + document list) \<times> 'w"

type_synonym 'w llm = "string \<Rightarrow> 'w \<Rightarrow> (exn + string) \<times> 'w"

record 'w retriever =
  vectorstore :: "'w vectordb"
  retriever_kwargs :: kwargs

definition as_retriever :: "'w vectordb \<Rightarrow> kwargs \<Rightarrow> 'w retriever" where
  "as_retriever vectordb kw = \<lparr>vectorstore = vectordb, retriever_kwargs = kw\<rparr>"

definition get_relevant_documents :: "'w retriever \<Rightarrow> string \<Rightarrow> ('w, document list) io" where
  "get_relevant_documents r query =
     (\<lambda>(w, tr). case vectorstore r (retriever_kwargs r) query w of
        (res, w') \<Rightarrow> (res, (w', tr @ [Retrieve (retriever_kwargs r) query])))"

datatype message = AIMessage string

definition llm_invoke :: "'w llm \<Rightarrow> string \<Rightarrow> ('w, message) io" where
  "llm_invoke llm prompt_text =
     (\<lambda>(w, tr). case llm prompt_text w of
        (Inl e, w') \<Rightarrow> (Inl e, (w', tr @ [Generate prompt_text]))
      | (Inr content, w') \<Rightarrow> (Inr (AIMessage content), (w', tr @ [Generate prompt_text])))"

fun StrOutputParser :: "message \<Rightarrow> string" where
  "StrOutputParser (AIMessage content) = content"

subsection \<open>Chains\<close>

text \<open>
  The operators of the chain expression: \<^verbatim>\<open>a | b\<close> feeds the output of \<open>a\<close> to \<open>b\<close>; a
  plain function in a chain is applied to its input; \<^verbatim>\<open>RunnablePassthrough()\<close> returns
  its input; a dictionary of runnables gives every entry the same input and returns the
  dictionary of their outputs. (The library runs the entries of such a dictionary on a
  thread pool; in both chains only the first entry has an effect, so running them in the
  order written gives the same events.)
\<close>

definition pipe :: "('a \<Rightarrow> ('w, 'b) io) \<Rightarrow> ('b \<Rightarrow> ('w, 'c) io) \<Rightarrow> 'a \<Rightarrow> ('w, 'c) io" where
  "pipe f g = (\<lambda>x. io_bind (f x) g)"

definition RunnableLambda :: "('a \<Rightarrow> 'b) \<Rightarrow> 'a \<Rightarrow> ('w, 'b) io" where
  "RunnableLambda f = (\<lambda>x. io_return (f x))"

definition RunnablePassthrough :: "'a \<Rightarrow> ('w, 'a) io" where
  "RunnablePassthrough = (\<lambda>x. io_return x)"

fun RunnableParallel :: "(string \<times> ('a \<Rightarrow> ('w, 'b) io)) list \<Rightarrow> 'a \<Rightarrow> ('w, (string \<times> 'b) list) io" where
  "RunnableParallel [] x = io_return []"
| "RunnableParallel ((k, r) # steps) x =
     io_bind (r x) (\<lambda>v. io_bind (RunnableParallel steps x) (\<lambda>rest. io_return ((k, v) # rest)))"

definition prompt_runnable :: "prompt_template \<Rightarrow> (string \<times> string) list \<Rightarrow> ('w, string) io" where
  "prompt_runnable p inputs = io_of_result (prompt_invoke p inputs)"

text \<open>
  The chain both scripts build (lines 89 to 94 of the first, 146 to 151 of the second):
  \<^verbatim>\<open>{"context": retriever | format_docs, "question": RunnablePassthrough()} | prompt | llm | StrOutputParser()\<close>.
\<close>

definition rag_chain :: "'w retriever \<Rightarrow> prompt_template \<Rightarrow> 'w llm \<Rightarrow> string \<Rightarrow> ('w, string) io" where
  "rag_chain retriever prompt llm =
     pipe (pipe (pipe
       (RunnableParallel
          [(''context'', pipe (get_relevant_documents retriever) (RunnableLambda format_docs)),
           (''question'', RunnablePassthrough)])
       (prompt_runnable prompt))
       (llm_invoke llm))
       (RunnableLambda StrOutputParser)"

section \<open>The external components built at setup\<close>

text \<open>
  The constructors and loaders that the setup code calls, in the order of their
  arguments in the source:
  \<^item> \<open>ChatGroq model temperature\<close>, the temperature as the literal is written;
  \<^item> \<open>RecursiveCharacterTextSplitter chunk_size chunk_overlap separators\<close> with
    \<^verbatim>\<open>length_function=len\<close>; it gives the splitter's \<^verbatim>\<open>split_documents\<close>, whose
    algorithm is the library's;
  \<^item> \<open>DirectoryLoader_load path glob\<close>: \<^verbatim>\<open>DirectoryLoader(dir, glob=..., loader_cls=PyPDFLoader).load()\<close>
    for the directory \<open>path\<close> under the working directory;
  \<^item> \<open>GoogleGenerativeAIEmbeddings model\<close>;
  \<^item> \<open>FAISS_from_documents docs embedding\<close>.
\<close>

datatype embeddings = Embeddings string

record 'w externals =
  ChatGroq :: "string \<Rightarrow> string \<Rightarrow> 'w \<Rightarrow> (exn + 'w llm) \<times> 'w"
  RecursiveCharacterTextSplitter ::
    "nat \<Rightarrow> nat \<Rightarrow> string list option \<Rightarrow> exn + (document list \<Rightarrow> document list)"
  DirectoryLoader_load :: "string list \<Rightarrow> string \<Rightarrow> 'w \<Rightarrow> (exn + document list) \<times> 'w"
  GoogleGenerativeAIEmbeddings :: "string \<Rightarrow> 'w \<Rightarrow> (exn + embeddings) \<times> 'w"
  FAISS_from_documents :: "document list \<Rightarrow> embeddings \<Rightarrow> 'w \<Rightarrow> (exn + 'w vectordb) \<times> 'w"

section \<open>The script \<^verbatim>\<open>fix_rag_chain.py\<close>\<close>

text \<open>\<^verbatim>\<open>fix_rag_chain()\<close>, lines 21 to 97: returns the chain and the vector store.\<close>

definition fix_rag_chain ::
  "'w externals \<Rightarrow> ('w, (string \<Rightarrow> ('w, string) io) \<times> 'w vectordb) io" where
  "fix_rag_chain ext =
     io_bind (print (emoji_wrench @ '' Fixing RAG Chain Issues...'')) (\<lambda>_.
     io_bind (print ''\<newline>1. Fixing prompt template typo...'') (\<lambda>_.
     io_bind (print ''2. Using better LLM model...'') (\<lambda>_.
     io_bind (external (ChatGroq ext ''llama3-8b-8192'' ''0.1'')) (\<lambda>llm.
     io_bind (print ''3. Improving text splitting...'') (\<lambda>_.
     io_bind (io_of_result (RecursiveCharacterTextSplitter ext 1000 200 None)) (\<lambda>split_documents.
     io_bind (print ''4. Loading documents...'') (\<lambda>_.
     io_bind (external (DirectoryLoader_load ext [''notebook'', ''data''] ''**/*.pdf'')) (\<lambda>docs.
     io_bind (print (''   Loaded '' @ str_nat (length docs) @ '' documents'')) (\<lambda>_.
     let split_docs = split_documents docs in
     io_bind (print (''   Split into '' @ str_nat (length split_docs) @ '' chunks'')) (\<lambda>_.
     io_bind (print ''5. Creating vector store...'') (\<lambda>_.
     io_bind (external (GoogleGenerativeAIEmbeddings ext ''models/embedding-001'')) (\<lambda>embedding_model.
     io_bind (external (FAISS_from_documents ext split_docs embedding_model)) (\<lambda>vectordb.
     io_bind (print ''6. Configuring retriever...'') (\<lambda>_.
     let retriever = as_retriever vectordb
           [(''search_type'', PyStr ''similarity''), (''search_kwargs'', PyDict [(''k'', PyInt 5)])] in
     io_bind (print ''7. Creating improved prompt...'') (\<lambda>_.
     let prompt = fixed_prompt in
     io_bind (print ''8. Creating fixed RAG chain...'') (\<lambda>_.
     let fixed_rag_chain = rag_chain retriever prompt llm in
     io_bind (print (emoji_check_mark @ '' RAG Chain Fixed!'')) (\<lambda>_.
     io_return (fixed_rag_chain, vectordb))))))))))))))))))"

definition test_questions :: "string list" where
  "test_questions =
     [''can you tell me how Reward Modeling works?'',
      ''What is LoRA?'',
      ''What are the main findings in the Llama 2 paper?'']"

text \<open>The body of the question loop of \<^verbatim>\<open>test_fixed_rag\<close>, lines 115 to 131.\<close>

definition test_fixed_rag_body ::
  "(string \<Rightarrow> ('w, string) io) \<Rightarrow> 'w vectordb \<Rightarrow> string \<Rightarrow> ('w, unit) io" where
  "test_fixed_rag_body chain vectordb question =
     io_bind (print (''\<newline>'' @ emoji_question_mark @ '' Question: '' @ question)) (\<lambda>_.
     io_bind (print (replicate 40 CHR ''-'')) (\<lambda>_.
     io_bind
       (try_except
          (let retriever = as_retriever vectordb [(''search_kwargs'', PyDict [(''k'', PyInt 5)])] in
           io_bind (get_relevant_documents retriever question) (\<lambda>docs.
           io_bind (print (emoji_page @ '' Retrieved '' @ str_nat (length docs) @ '' documents'')) (\<lambda>_.
           io_bind (chain question) (\<lambda>answer.
           print (emoji_bulb @ '' Answer: '' @ answer)))))
          (\<lambda>e. print (emoji_cross_mark @ '' Error: '' @ str_exn e))) (\<lambda>_.
     print (replicate 40 CHR ''-''))))"

text \<open>\<^verbatim>\<open>test_fixed_rag()\<close>, lines 99 to 131, the script's entry point.\<close>

definition test_fixed_rag :: "'w externals \<Rightarrow> ('w, unit) io" where
  "test_fixed_rag ext =
     io_bind (fix_rag_chain ext) (\<lambda>(chain, vectordb).
     io_bind (print (''\<newline>'' @ emoji_test_tube @ '' Testing Fixed RAG Chain...'')) (\<lambda>_.
     io_bind (print (replicate 60 CHR ''='')) (\<lambda>_.
     for_each (test_fixed_rag_body chain vectordb) test_questions)))"

section \<open>The script \<^verbatim>\<open>improved_rag_debug.py\<close>\<close>

text \<open>\<^verbatim>\<open>setup_components()\<close>, lines 21 to 55.\<close>

definition setup_components ::
  "'w externals \<Rightarrow> ('w, 'w llm \<times> embeddings \<times> 'w vectordb \<times> document list) io" where
  "setup_components ext =
     io_bind (external (ChatGroq ext ''llama3-8b-8192'' ''0.1'')) (\<lambda>llm.
     io_bind (external (GoogleGenerativeAIEmbeddings ext ''models/embedding-001'')) (\<lambda>embedding_model.
     io_bind (external (DirectoryLoader_load ext [''notebook'', ''data''] ''**/*.pdf'')) (\<lambda>docs.
     io_bind (print (''Loaded '' @ str_nat (length docs) @ '' documents'')) (\<lambda>_.
     io_bind (io_of_result (RecursiveCharacterTextSplitter ext 1000 200
                (Some [''\<newline>\<newline>'', ''\<newline>'', ''. '', '' '', '''']))) (\<lambda>split_documents.
     let split_docs = split_documents docs in
     io_bind (print (''Split into '' @ str_nat (length split_docs) @ '' chunks'')) (\<lambda>_.
     io_bind (external (FAISS_from_documents ext split_docs embedding_model)) (\<lambda>vectordb.
     io_return (llm, embedding_model, vectordb, split_docs))))))))"

text \<open>\<^verbatim>\<open>metadata.get(key, 'Unknown')\<close>.\<close>

definition metadata_get :: "document \<Rightarrow> string \<Rightarrow> string" where
  "metadata_get doc k = (case map_of (metadata doc) k of None \<Rightarrow> ''Unknown'' | Some v \<Rightarrow> v)"

text \<open>The list \<^verbatim>\<open>retriever_configs\<close>, lines 97 to 102.\<close>

definition retriever_configs :: "kwargs list" where
  "retriever_configs =
     [[(''k'', PyInt 3), (''search_type'', PyStr ''similarity'')],
      [(''k'', PyInt 5), (''search_type'', PyStr ''similarity'')],
      [(''k'', PyInt 7), (''search_type'', PyStr ''similarity'')],
      [(''k'', PyInt 3), (''search_type'', PyStr ''mmr'')]]"

text \<open>The body of the loop over \<^verbatim>\<open>enumerate(retriever_configs)\<close>, lines 105 to 112.\<close>

definition try_retriever_config :: "string \<Rightarrow> 'w vectordb \<Rightarrow> nat \<times> kwargs \<Rightarrow> ('w, unit) io" where
  "try_retriever_config question vectordb = (\<lambda>(i, config).
     io_bind (print (''\<newline>Retriever config '' @ str_nat (i + 1) @ '': '' @ repr (PyDict config))) (\<lambda>_.
     let retriever = as_retriever vectordb config in
     io_bind (get_relevant_documents retriever question) (\<lambda>retrieved_docs.
     io_bind (print (''  Retrieved '' @ str_nat (length retrieved_docs) @ '' documents'')) (\<lambda>_.
     case retrieved_docs of
       [] \<Rightarrow> io_return ()
     | first_doc # _ \<Rightarrow>
         io_bind (print (''  First doc preview: '' @ take 200 (page_content first_doc) @ ''...'')) (\<lambda>_.
         print (''  Source: '' @ metadata_get first_doc ''source''))))))"

text \<open>The body of the loop over \<^verbatim>\<open>enumerate(retrieved_docs)\<close>, lines 128 to 131.\<close>

definition show_retrieved_doc :: "nat \<times> document \<Rightarrow> ('w, unit) io" where
  "show_retrieved_doc = (\<lambda>(i, doc).
     io_bind (print (''\<newline>Document '' @ str_nat (i + 1) @ '':'')) (\<lambda>_.
     io_bind (print (''  Content: '' @ take 300 (page_content doc) @ ''...'')) (\<lambda>_.
     io_bind (print (''  Source: '' @ metadata_get doc ''source'')) (\<lambda>_.
     print (''  Page: '' @ metadata_get doc ''page'')))))"

text \<open>
  \<^verbatim>\<open>debug_rag_chain(question, vectordb, llm, prompt)\<close>, lines 84 to 160. The result is
  the answer, or \<open>None\<close>.
\<close>

definition debug_rag_chain ::
  "string \<Rightarrow> 'w vectordb \<Rightarrow> 'w llm \<Rightarrow> prompt_template \<Rightarrow> ('w, string option) io" where
  "debug_rag_chain question vectordb llm prompt =
     io_bind (print (replicate 80 CHR ''='')) (\<lambda>_.
     io_bind (print ''RAG CHAIN DEBUG'') (\<lambda>_.
     io_bind (print (replicate 80 CHR ''='')) (\<lambda>_.
     io_bind (print (''Question: '' @ question)) (\<lambda>_.
     io_bind (print ''\<newline>1. TESTING RETRIEVAL'') (\<lambda>_.
     io_bind (print (replicate 40 CHR ''-'')) (\<lambda>_.
     io_bind (for_each (try_retriever_config question vectordb) (enumerate 0 retriever_configs)) (\<lambda>_.
     io_bind (print ''\<newline>2. USING OPTIMAL CONFIGURATION'') (\<lambda>_.
     io_bind (print (replicate 40 CHR ''-'')) (\<lambda>_.
     let best_retriever = as_retriever vectordb
           [(''search_type'', PyStr ''similarity''), (''search_kwargs'', PyDict [(''k'', PyInt 5)])] in
     io_bind (get_relevant_documents best_retriever question) (\<lambda>retrieved_docs.
     io_bind (print (''Retrieved '' @ str_nat (length retrieved_docs) @ '' documents'')) (\<lambda>_.
     io_bind (for_each show_retrieved_doc (enumerate 0 retrieved_docs)) (\<lambda>_.
     io_bind (print ''\<newline>3. TESTING PROMPT FORMATTING'') (\<lambda>_.
     io_bind (print (replicate 40 CHR ''-'')) (\<lambda>_.
     let formatted_context = format_docs retrieved_docs in
     io_bind (print (''Formatted context length: '' @ str_nat (length formatted_context) @ '' characters'')) (\<lambda>_.
     io_bind (print (''Context preview: '' @ take 500 formatted_context @ ''...'')) (\<lambda>_.
     io_bind (print ''\<newline>4. TESTING LLM RESPONSE'') (\<lambda>_.
     io_bind (print (replicate 40 CHR ''-'')) (\<lambda>_.
     let chain = rag_chain best_retriever prompt llm in
     try_except
       (io_bind (chain question) (\<lambda>answer.
        io_bind (print ''SUCCESS! Generated answer:'') (\<lambda>_.
        io_bind (print answer) (\<lambda>_.
        io_return (Some answer)))))
       (\<lambda>e. io_bind (print (''ERROR: '' @ str_exn e)) (\<lambda>_.
        io_return None))))))))))))))))))))"

definition debug_test_questions :: "string list" where
  "debug_test_questions =
     [''can you tell me how Reward Modeling works?'',
      ''What is LoRA?'',
      ''What are the main findings in the Llama 2 paper?'',
      ''How does fine-tuning work?'',
      ''What are the benchmark results?'']"

text \<open>The body of the question loop of \<^verbatim>\<open>test_different_questions\<close>, lines 179 to 182.\<close>

definition test_different_questions_body ::
  "'w vectordb \<Rightarrow> 'w llm \<Rightarrow> prompt_template \<Rightarrow> string \<Rightarrow> ('w, unit) io" where
  "test_different_questions_body vectordb llm prompt question =
     io_bind (print (''\<newline>'' @ replicate 60 CHR ''='')) (\<lambda>_.
     io_bind (print (''Testing: '' @ question)) (\<lambda>_.
     io_bind (print (replicate 60 CHR ''='')) (\<lambda>_.
     io_bind (debug_rag_chain question vectordb llm prompt) (\<lambda>_.
     io_return ()))))"

text \<open>\<^verbatim>\<open>test_different_questions()\<close>, lines 162 to 182, the script's entry point.\<close>

definition test_different_questions :: "'w externals \<Rightarrow> ('w, unit) io" where
  "test_different_questions ext =
     io_bind (print ''Setting up components...'') (\<lambda>_.
     io_bind (setup_components ext) (\<lambda>(llm, embedding_model, vectordb, split_docs).
     let prompt = create_improved_prompt in
     io_bind (print ''\<newline>Testing different questions...'') (\<lambda>_.
     for_each (test_different_questions_body vectordb llm prompt) debug_test_questions)))"

section \<open>Reading a run: queries, expected reports, example worlds\<close>

text \<open>The retriever queries among the events of a run, in order.\<close>

fun queries :: "event list \<Rightarrow> (kwargs \<times> string) list" where
  "queries [] = []"
| "queries (Retrieve kw q # es) = (kw, q) # queries es"
| "queries (Print l # es) = queries es"
| "queries (Generate p # es) = queries es"

text \<open>
  What the step-by-step routine is said to do for one retriever configuration, as events:
  the configuration is announced, the retriever is queried, the number of results is
  printed, and the first result is previewed when there is one.
\<close>

definition config_report :: "nat \<Rightarrow> kwargs \<Rightarrow> string \<Rightarrow> document list \<Rightarrow> event list" where
  "config_report i config question docs =
     [Print (''\<newline>Retriever config '' @ str_nat (i + 1) @ '': '' @ repr (PyDict config)),
      Retrieve config question,
      Print (''  Retrieved '' @ str_nat (length docs) @ '' documents'')] @
     (case docs of
        [] \<Rightarrow> []
      | first_doc # _ \<Rightarrow>
          [Print (''  First doc preview: '' @ take 200 (page_content first_doc) @ ''...''),
           Print (''  Source: '' @ metadata_get first_doc ''source'')])"

text \<open>The lines that open the routine's output, and the lines shown for one retrieved document.\<close>

definition debug_header :: "string \<Rightarrow> event list" where
  "debug_header question =
     [Print (replicate 80 CHR ''=''), Print ''RAG CHAIN DEBUG'', Print (replicate 80 CHR ''=''),
      Print (''Question: '' @ question), Print ''\<newline>1. TESTING RETRIEVAL'',
      Print (replicate 40 CHR ''-'')]"



text \<open>
  Example worlds, with no state of their own: a corpus of one document that the splitter
  leaves whole, a language model with one answer, and three vector stores: one that
  returns the document for every query, one that returns nothing, and one whose every
  query fails as a lost connection does.
\<close>

definition example_doc :: document where
  "example_doc =
     \<lparr>page_content = ''LoRA is a parameter-efficient fine-tuning method.'',
      metadata = [(''source'', ''notebook/data/lora.pdf''), (''page'', ''0'')]\<rparr>"

definition answering_llm :: "unit llm" where
  "answering_llm = (\<lambda>prompt_text w. (Inr ''LoRA is a fine-tuning method.'', w))"



definition failing_store :: "unit vectordb" where
  "failing_store = (\<lambda>kw query w. (Inl (Exception ''Connection error.''), w))"

definition externals_with :: "unit vectordb \<Rightarrow> unit externals" where
  "externals_with store =
     \<lparr>ChatGroq = (\<lambda>model temperature w. (Inr answering_llm, w)),
      RecursiveCharacterTextSplitter = (\<lambda>chunk_size chunk_overlap separators. Inr (\<lambda>docs. docs)),
      DirectoryLoader_load = (\<lambda>path glob w. (Inr [example_doc], w)),
      GoogleGenerativeAIEmbeddings = (\<lambda>model w. (Inr (Embeddings model), w)),
      FAISS_from_documents = (\<lambda>docs embedding w. (Inr store, w))\<rparr>"

section \<open>Properties of the context string and the prompt\<close>

lemma prepend_Inr: "prepend s (Inr t) = Inr (s @ t)"
  by (simp add: prepend_def)

lemma vformat_fixed:
  "vformat [(''context'', c), (''question'', q)] None fixed_prompt_template =
     Inr (fixed_head @ c @ question_label @ q @ answer_label)"
  by (simp add: fixed_prompt_template_def fixed_head_def question_label_def answer_label_def
      prepend_Inr)

lemma vformat_improved:
  "vformat [(''context'', c), (''question'', q)] None improved_prompt_template =
     Inr (improved_head @ c @ question_label @ q @ answer_label)"
  by (simp add: improved_prompt_template_def improved_head_def question_label_def
      answer_label_def prepend_Inr)

lemma prompt_invoke_fixed:
  "prompt_invoke fixed_prompt [(''context'', c), (''question'', q)] =
     Inr (fixed_head @ c @ question_label @ q @ answer_label)"
  by (simp add: prompt_invoke_def fixed_prompt_def vformat_fixed)

lemma prompt_invoke_improved:
  "prompt_invoke create_improved_prompt [(''context'', c), (''question'', q)] =
     Inr (improved_head @ c @ question_label @ q @ answer_label)"
  by (simp add: prompt_invoke_def create_improved_prompt_def vformat_improved)

lemma concat_blank_line_between: "concat (blank_line_between xs) = join ''\<newline>\<newline>'' xs"
  by (induction xs rule: blank_line_between.induct) simp_all

lemma sublist_second: "sublist c (h @ c @ t)"
  by (rule sublist_appendI)

lemma sublist_fourth: "sublist q (h @ c @ l @ q @ t)"
proof -
  have "sublist q ((h @ c @ l) @ q @ t)"
    by (rule sublist_appendI)
  then show ?thesis
    by simp
qed

text \<open>
  Claim C9. \<open>format_docs\<close> of an empty retrieval result is the empty string; with it the
  prompt of either script is still assembled, with nothing between \<^verbatim>\<open>Context: \<close> and
  the blank line before \<^verbatim>\<open>Question:\<close>, and no exception is raised; for every list of
  documents \<open>format_docs\<close> is exactly the page contents with a blank line between
  neighbours.
\<close>

theorem format_docs_joins_page_contents:
  "format_docs [] = [] \<and>
   prompt_invoke fixed_prompt [(''context'', format_docs []), (''question'', q)] =
     Inr (fixed_head @ question_label @ q @ answer_label) \<and>
   prompt_invoke create_improved_prompt [(''context'', format_docs []), (''question'', q)] =
     Inr (improved_head @ question_label @ q @ answer_label) \<and>
   format_docs docs = joined_page_contents docs"
proof -
  have empty: "format_docs [] = []"
    by (simp add: format_docs_def)
  have general: "format_docs docs = joined_page_contents docs"
    by (simp add: format_docs_def joined_page_contents_def concat_blank_line_between)
  show ?thesis
    using general by (simp add: empty prompt_invoke_fixed prompt_invoke_improved)
qed

text \<open>
  Claim C7. For every question and every list of retrieved documents, the prompt that
  either script assembles from the dictionary
  \<^verbatim>\<open>{"context": format_docs(docs), "question": question}\<close> is produced without an
  exception, contains the question as a contiguous substring, and contains the page
  contents joined by \<^verbatim>\<open>"\n\n"\<close> as a contiguous substring.
\<close>

theorem prompt_contains_question_and_context:
  "(\<exists>text. prompt_invoke fixed_prompt [(''context'', format_docs docs), (''question'', q)] = Inr text \<and>
      sublist q text \<and> sublist (join ''\<newline>\<newline>'' (map page_content docs)) text) \<and>
   (\<exists>text. prompt_invoke create_improved_prompt [(''context'', format_docs docs), (''question'', q)] = Inr text \<and>
      sublist q text \<and> sublist (join ''\<newline>\<newline>'' (map page_content docs)) text)"
proof (intro conjI)
  let ?c = "join ''\<newline>\<newline>'' (map page_content docs)"
  show "\<exists>text. prompt_invoke fixed_prompt [(''context'', format_docs docs), (''question'', q)] = Inr text \<and>
      sublist q text \<and> sublist ?c text"
    unfolding format_docs_def prompt_invoke_fixed
    using sublist_second [of ?c] sublist_fourth [of q] by blast
  show "\<exists>text. prompt_invoke create_improved_prompt [(''context'', format_docs docs), (''question'', q)] = Inr text \<and>
      sublist q text \<and> sublist ?c text"
    unfolding format_docs_def prompt_invoke_improved
    using sublist_second [of ?c] sublist_fourth [of q] by blast
qed

section \<open>Running the effects\<close>

lemma print_run: "print l (w, tr) = (Inr (), (w, tr @ [Print l]))"
  by (simp add: print_def)

lemma io_return_run: "io_return x s = (Inr x, s)"
  by (simp add: io_return_def)

lemma io_bind_run:
  "io_bind m f s = (case m s of (Inl e, s') \<Rightarrow> (Inl e, s') | (Inr x, s') \<Rightarrow> f x s')"
  by (simp add: io_bind_def)

lemma io_bind_print: "io_bind (print l) f (w, tr) = f () (w, tr @ [Print l])"
  by (simp add: io_bind_def print_def)

lemma get_relevant_documents_run:
  "get_relevant_documents (as_retriever vectordb kw) q (w, tr) =
     (case vectordb kw q w of (res, w') \<Rightarrow> (res, (w', tr @ [Retrieve kw q])))"
  by (simp add: get_relevant_documents_def as_retriever_def)

section \<open>The chain\<close>

text \<open>
  One run of the chain, for any prompt: the retriever is queried with the chain's input;
  the prompt is invoked on the dictionary of the formatted documents and that same input;
  the language model gets the text of the prompt.
\<close>

lemma rag_chain_run:
  "rag_chain (as_retriever vectordb kw) p llm q (w, tr) =
     (case vectordb kw q w of
        (Inl e, w1) \<Rightarrow> (Inl e, (w1, tr @ [Retrieve kw q]))
      | (Inr docs, w1) \<Rightarrow>
          (case prompt_invoke p [(''context'', format_docs docs), (''question'', q)] of
             Inl e \<Rightarrow> (Inl e, (w1, tr @ [Retrieve kw q]))
           | Inr text \<Rightarrow>
               (case llm text w1 of
                  (Inl e, w2) \<Rightarrow> (Inl e, (w2, tr @ [Retrieve kw q, Generate text]))
                | (Inr content, w2) \<Rightarrow> (Inr content, (w2, tr @ [Retrieve kw q, Generate text])))))"
  by (simp add: rag_chain_def pipe_def RunnableLambda_def RunnablePassthrough_def
      prompt_runnable_def io_of_result_def io_bind_def io_return_def llm_invoke_def
      get_relevant_documents_run split: prod.splits sum.splits)

text \<open>
  Claim C10. Invoked on a question, the chain of either script puts exactly that question
  to its retriever and, when the retriever returns documents, sends the language model
  exactly the template with the formatted documents in the context field and the same
  question, character for character, in the question field. Nothing else happens in the
  chain: an exception of the retriever or of the model ends it.
\<close>

theorem rag_chain_passes_question_unchanged:
  "rag_chain (as_retriever vectordb kw) fixed_prompt llm q (w, tr) =
     (case vectordb kw q w of
        (Inl e, w1) \<Rightarrow> (Inl e, (w1, tr @ [Retrieve kw q]))
      | (Inr docs, w1) \<Rightarrow>
          (case llm (fixed_head @ format_docs docs @ question_label @ q @ answer_label) w1 of
             (Inl e, w2) \<Rightarrow>
               (Inl e, (w2, tr @ [Retrieve kw q,
                  Generate (fixed_head @ format_docs docs @ question_label @ q @ answer_label)]))
           | (Inr content, w2) \<Rightarrow>
               (Inr content, (w2, tr @ [Retrieve kw q,
                  Generate (fixed_head @ format_docs docs @ question_label @ q @ answer_label)])))) \<and>
   rag_chain (as_retriever vectordb kw) create_improved_prompt llm q (w, tr) =
     (case vectordb kw q w of
        (Inl e, w1) \<Rightarrow> (Inl e, (w1, tr @ [Retrieve kw q]))
      | (Inr docs, w1) \<Rightarrow>
          (case llm (improved_head @ format_docs docs @ question_label @ q @ answer_label) w1 of
             (Inl e, w2) \<Rightarrow>
               (Inl e, (w2, tr @ [Retrieve kw q,
                  Generate (improved_head @ format_docs docs @ question_label @ q @ answer_label)]))
           | (Inr content, w2) \<Rightarrow>
               (Inr content, (w2, tr @ [Retrieve kw q,
                  Generate (improved_head @ format_docs docs @ question_label @ q @ answer_label)]))))"
proof (intro conjI)
  show "rag_chain (as_retriever vectordb kw) fixed_prompt llm q (w, tr) =
     (case vectordb kw q w of
        (Inl e, w1) \<Rightarrow> (Inl e, (w1, tr @ [Retrieve kw q]))
      | (Inr docs, w1) \<Rightarrow>
          (case llm (fixed_head @ format_docs docs @ question_label @ q @ answer_label) w1 of
             (Inl e, w2) \<Rightarrow>
               (Inl e, (w2, tr @ [Retrieve kw q,
                  Generate (fixed_head @ format_docs docs @ question_label @ q @ answer_label)]))
           | (Inr content, w2) \<Rightarrow>
               (Inr content, (w2, tr @ [Retrieve kw q,
                  Generate (fixed_head @ format_docs docs @ question_label @ q @ answer_label)]))))"
    by (simp add: rag_chain_run prompt_invoke_fixed split: prod.splits sum.splits)
  show "rag_chain (as_retriever vectordb kw) create_improved_prompt llm q (w, tr) =
     (case vectordb kw q w of
        (Inl e, w1) \<Rightarrow> (Inl e, (w1, tr @ [Retrieve kw q]))
      | (Inr docs, w1) \<Rightarrow>
          (case llm (improved_head @ format_docs docs @ question_label @ q @ answer_label) w1 of
             (Inl e, w2) \<Rightarrow>
               (Inl e, (w2, tr @ [Retrieve kw q,
                  Generate (improved_head @ format_docs docs @ question_label @ q @ answer_label)]))
           | (Inr content, w2) \<Rightarrow>
               (Inr content, (w2, tr @ [Retrieve kw q,
                  Generate (improved_head @ format_docs docs @ question_label @ q @ answer_label)]))))"
    by (simp add: rag_chain_run prompt_invoke_improved split: prod.splits sum.splits)
qed

section \<open>The question loop of \<^verbatim>\<open>fix_rag_chain.py\<close>\<close>

text \<open>
  The loop body wraps both the retrieval and the chain in \<^verbatim>\<open>try\<close>: whatever the
  vector store and the language model do, it ends normally, and so does the loop over any
  list of questions.
\<close>

lemma test_fixed_rag_body_never_raises:
  "\<exists>w' out. test_fixed_rag_body (rag_chain (as_retriever vectordb kw) p llm) vectordb question (w, tr) =
     (Inr (), (w', tr @ out))"
  by (auto simp add: test_fixed_rag_body_def io_bind_run try_except_def print_run rag_chain_run
      get_relevant_documents_run split: prod.splits sum.splits)

lemma test_fixed_rag_loop_never_raises:
  "\<exists>w' out. for_each (test_fixed_rag_body (rag_chain (as_retriever vectordb kw) p llm) vectordb) qs (w, tr) =
     (Inr (), (w', tr @ out))"
proof (induction qs arbitrary: w tr)
  case Nil
  show ?case by (simp add: io_return_run)
next
  case (Cons question qs)
  obtain w1 out1 where
    first: "test_fixed_rag_body (rag_chain (as_retriever vectordb kw) p llm) vectordb question (w, tr) =
       (Inr (), (w1, tr @ out1))"
    using test_fixed_rag_body_never_raises [of vectordb kw p llm question w tr] by blast
  obtain w2 out2 where
    others: "for_each (test_fixed_rag_body (rag_chain (as_retriever vectordb kw) p llm) vectordb) qs (w1, tr @ out1) =
       (Inr (), (w2, (tr @ out1) @ out2))"
    using Cons.IH [of w1 "tr @ out1"] by blast
  have "for_each (test_fixed_rag_body (rag_chain (as_retriever vectordb kw) p llm) vectordb) (question # qs) (w, tr) =
       (Inr (), (w2, tr @ (out1 @ out2)))"
    by (simp add: io_bind_run first others)
  then show ?case by blast
qed

text \<open>A setup call that raises ends either script before its question loop starts.\<close>

lemma fix_rag_chain_error_aborts:
  "fix_rag_chain ext s = (Inl e, s') \<Longrightarrow> test_fixed_rag ext s = (Inl e, s')"
  by (simp add: test_fixed_rag_def io_bind_run)

lemma setup_components_error_aborts:
  "setup_components ext (w, tr @ [Print ''Setting up components...'']) = (Inl e, s') \<Longrightarrow>
   test_different_questions ext (w, tr) = (Inl e, s')"
  by (simp add: test_different_questions_def io_bind_print io_bind_run print_run)

text \<open>
  With a vector store whose every query fails, the first script prints the error for each
  of its three questions and reaches the end.
\<close>

lemma test_fixed_rag_continues:
  "test_fixed_rag (externals_with failing_store) ((), []) =
     (Inr (),
      ((), [Print (emoji_wrench @ '' Fixing RAG Chain Issues...''),
            Print ''\<newline>1. Fixing prompt template typo...'',
            Print ''2. Using better LLM model...'',
            Print ''3. Improving text splitting...'',
            Print ''4. Loading documents...'',
            Print ''   Loaded 1 documents'',
            Print ''   Split into 1 chunks'',
            Print ''5. Creating vector store...'',
            Print ''6. Configuring retriever...'',
            Print ''7. Creating improved prompt...'',
            Print ''8. Creating fixed RAG chain...'',
            Print (emoji_check_mark @ '' RAG Chain Fixed!''),
            Print (''\<newline>'' @ emoji_test_tube @ '' Testing Fixed RAG Chain...''),
            Print (replicate 60 CHR ''=''),
            Print (''\<newline>'' @ emoji_question_mark @ '' Question: can you tell me how Reward Modeling works?''),
            Print (replicate 40 CHR ''-''),
            Retrieve [(''search_kwargs'', PyDict [(''k'', PyInt 5)])]
              ''can you tell me how Reward Modeling works?'',
            Print (emoji_cross_mark @ '' Error: Connection error.''),
            Print (replicate 40 CHR ''-''),
            Print (''\<newline>'' @ emoji_question_mark @ '' Question: What is LoRA?''),
            Print (replicate 40 CHR ''-''),
            Retrieve [(''search_kwargs'', PyDict [(''k'', PyInt 5)])] ''What is LoRA?'',
            Print (emoji_cross_mark @ '' Error: Connection error.''),
            Print (replicate 40 CHR ''-''),
            Print (''\<newline>'' @ emoji_question_mark @ '' Question: What are the main findings in the Llama 2 paper?''),
            Print (replicate 40 CHR ''-''),
            Retrieve [(''search_kwargs'', PyDict [(''k'', PyInt 5)])]
              ''What are the main findings in the Llama 2 paper?'',
            Print (emoji_cross_mark @ '' Error: Connection error.''),
            Print (replicate 40 CHR ''-'')]))"
  by code_simp

section \<open>The step-by-step routine of \<^verbatim>\<open>improved_rag_debug.py\<close>\<close>

lemma queries_append: "queries (xs @ ys) = queries xs @ queries ys"
  by (induction xs rule: queries.induct) simp_all

lemma queries_prints: "queries (map Print ls) = []"
  by (induction ls) simp_all

lemma try_retriever_config_run:
  "try_retriever_config q vectordb (i, config) (w, tr) =
     (case vectordb config q w of
        (Inl e, w') \<Rightarrow>
          (Inl e, (w', tr @ [Print (''\<newline>Retriever config '' @ str_nat (i + 1) @ '': '' @ repr (PyDict config)),
                           Retrieve config q]))
      | (Inr docs, w') \<Rightarrow> (Inr (), (w', tr @ config_report i config q docs)))"
  by (simp add: try_retriever_config_def config_report_def io_bind_print io_bind_run
      get_relevant_documents_run print_run io_return_run split: prod.splits sum.splits list.splits)




text \<open>
  The last step of the routine, the chain inside \<^verbatim>\<open>try\<close>: it never raises, and it
  queries the retriever once.
\<close>

lemma answer_or_none_run:
  "\<exists>answer w' fin.
     try_except
       (io_bind (rag_chain (as_retriever vectordb kw) p llm q) (\<lambda>answer.
        io_bind (print ''SUCCESS! Generated answer:'') (\<lambda>_.
        io_bind (print answer) (\<lambda>_.
        io_return (Some answer)))))
       (\<lambda>e. io_bind (print (''ERROR: '' @ str_exn e)) (\<lambda>_.
        io_return None)) (w, tr) = (Inr answer, (w', tr @ fin)) \<and>
     queries fin = [(kw, q)]"
proof (cases "vectordb kw q w")
  case (Pair res w1)
  show ?thesis
  proof (cases res)
    case (Inl e)
    have "try_except
       (io_bind (rag_chain (as_retriever vectordb kw) p llm q) (\<lambda>answer.
        io_bind (print ''SUCCESS! Generated answer:'') (\<lambda>_.
        io_bind (print answer) (\<lambda>_.
        io_return (Some answer)))))
       (\<lambda>e. io_bind (print (''ERROR: '' @ str_exn e)) (\<lambda>_.
        io_return None)) (w, tr) = (Inr None, (w1, tr @ [Retrieve kw q, Print (''ERROR: '' @ str_exn e)]))"
      by (simp add: try_except_def io_bind_run rag_chain_run Pair Inl print_run io_return_run)
    moreover have "queries [Retrieve kw q, Print (''ERROR: '' @ str_exn e)] = [(kw, q)]"
      by simp
    ultimately show ?thesis by blast
  next
    case (Inr docs)
    show ?thesis
    proof (cases "prompt_invoke p [(''context'', format_docs docs), (''question'', q)]")
      case (Inl e)
      have "try_except
         (io_bind (rag_chain (as_retriever vectordb kw) p llm q) (\<lambda>answer.
          io_bind (print ''SUCCESS! Generated answer:'') (\<lambda>_.
          io_bind (print answer) (\<lambda>_.
          io_return (Some answer)))))
         (\<lambda>e. io_bind (print (''ERROR: '' @ str_exn e)) (\<lambda>_.
          io_return None)) (w, tr) = (Inr None, (w1, tr @ [Retrieve kw q, Print (''ERROR: '' @ str_exn e)]))"
        by (simp add: try_except_def io_bind_run rag_chain_run Pair \<open>res = Inr docs\<close> Inl print_run io_return_run)
      moreover have "queries [Retrieve kw q, Print (''ERROR: '' @ str_exn e)] = [(kw, q)]"
        by simp
      ultimately show ?thesis by blast
    next
      case formatted: (Inr ptext)
      obtain res2 w2 where llm: "llm ptext w1 = (res2, w2)"
        by (cases "llm ptext w1")
      show ?thesis
      proof (cases res2)
        case (Inl e)
        have "try_except
           (io_bind (rag_chain (as_retriever vectordb kw) p llm q) (\<lambda>answer.
            io_bind (print ''SUCCESS! Generated answer:'') (\<lambda>_.
            io_bind (print answer) (\<lambda>_.
            io_return (Some answer)))))
           (\<lambda>e. io_bind (print (''ERROR: '' @ str_exn e)) (\<lambda>_.
            io_return None)) (w, tr) =
             (Inr None, (w2, tr @ [Retrieve kw q, Generate ptext, Print (''ERROR: '' @ str_exn e)]))"
          by (simp add: try_except_def io_bind_run rag_chain_run Pair \<open>res = Inr docs\<close> formatted llm Inl
              print_run io_return_run)
        moreover have "queries [Retrieve kw q, Generate ptext, Print (''ERROR: '' @ str_exn e)] = [(kw, q)]"
          by simp
        ultimately show ?thesis by blast
      next
        case (Inr content)
        have "try_except
           (io_bind (rag_chain (as_retriever vectordb kw) p llm q) (\<lambda>answer.
            io_bind (print ''SUCCESS! Generated answer:'') (\<lambda>_.
            io_bind (print answer) (\<lambda>_.
            io_return (Some answer)))))
           (\<lambda>e. io_bind (print (''ERROR: '' @ str_exn e)) (\<lambda>_.
            io_return None)) (w, tr) =
             (Inr (Some content),
              (w2, tr @ [Retrieve kw q, Generate ptext, Print ''SUCCESS! Generated answer:'', Print content]))"
          by (simp add: try_except_def io_bind_run rag_chain_run Pair \<open>res = Inr docs\<close> formatted llm Inr
              print_run io_return_run)
        moreover have "queries [Retrieve kw q, Generate ptext, Print ''SUCCESS! Generated answer:'', Print content] = [(kw, q)]"
          by simp
        ultimately show ?thesis by blast
      qed
    qed
  qed
qed





section \<open>The question loop of \<^verbatim>\<open>improved_rag_debug.py\<close>\<close>

text \<open>
  The routine's \<^verbatim>\<open>try\<close> covers the chain only. An exception of the first diagnostic
  retrieval leaves the routine, and the loop body with it.
\<close>

lemma debug_rag_chain_retrieval_error_propagates:
  assumes "vectordb [(''k'', PyInt 3), (''search_type'', PyStr ''similarity'')] q w = (Inl e, w')"
  shows "debug_rag_chain q vectordb llm prompt (w, tr) =
     (Inl e, (w', tr @ debug_header q @
        [Print (''\<newline>Retriever config 1: {'k': 3, 'search_type': 'similarity'}''),
         Retrieve [(''k'', PyInt 3), (''search_type'', PyStr ''similarity'')] q]))"
proof -
  have one: "str_nat (Suc 0) = ''1''"
    by code_simp
  have three: "str_int 3 = ''3''"
    by code_simp
  show ?thesis
    unfolding debug_rag_chain_def Let_def
    apply (simp only: io_bind_print)
    apply (simp add: io_bind_run retriever_configs_def enumerate_simps try_retriever_config_run
        assms debug_header_def one three)
    done
qed

lemma test_different_questions_body_propagates:
  assumes "vectordb [(''k'', PyInt 3), (''search_type'', PyStr ''similarity'')] q w = (Inl e, w')"
  shows "fst (test_different_questions_body vectordb llm prompt q (w, tr)) = Inl e"
  unfolding test_different_questions_body_def
  apply (simp only: io_bind_print)
  apply (simp add: io_bind_run
      debug_rag_chain_retrieval_error_propagates [where vectordb = vectordb, OF assms])
  done

text \<open>
  Claim C1. The claim holds for the first script (\<open>test_fixed_rag_loop_never_raises\<close>
  above) and fails for the second: with a vector store whose every query fails, the run
  of \<^verbatim>\<open>test_different_questions\<close> ends with the exception of the first retrieval for
  the first question. The script prints no error line for it, no answer results, and the
  other four questions are never reached.
\<close>

theorem test_different_questions_aborts_on_retrieval_error:
  "test_different_questions (externals_with failing_store) ((), []) =
     (Inl (Exception ''Connection error.''),
      ((), [Print ''Setting up components...'',
            Print ''Loaded 1 documents'',
            Print ''Split into 1 chunks'',
            Print ''\<newline>Testing different questions...'',
            Print (''\<newline>'' @ replicate 60 CHR ''=''),
            Print ''Testing: can you tell me how Reward Modeling works?'',
            Print (replicate 60 CHR ''=''),
            Print (replicate 80 CHR ''=''),
            Print ''RAG CHAIN DEBUG'',
            Print (replicate 80 CHR ''=''),
            Print ''Question: can you tell me how Reward Modeling works?'',
            Print ''\<newline>1. TESTING RETRIEVAL'',
            Print (replicate 40 CHR ''-''),
            Print ''\<newline>Retriever config 1: {'k': 3, 'search_type': 'similarity'}'',
            Retrieve [(''k'', PyInt 3), (''search_type'', PyStr ''similarity'')]
              ''can you tell me how Reward Modeling works?'']))"
  by code_simp

end
